theory Spec2Isabelle
  imports Main
begin

section \<open>The rows of the grid and the overlay of edits\<close>

text \<open>
  \<^verbatim>\<open>table-editor.tsx\<close> declares
  \<^verbatim>\<open>interface CustomerRow { id; bio; name; language; version; state; createdDate; isNew? }\<close>
  and handles its rows as plain JavaScript objects: it copies them with the spread
  operator and writes a property chosen at run time (\<^verbatim>\<open>[key]: value\<close>). A row is
  therefore modelled as a map from the keys of the interface to values. The values the
  program stores are strings, and the boolean of \<^verbatim>\<open>isNew\<close>.
\<close>

datatype field =
  K_id | K_bio | K_name | K_language | K_version | K_state | K_createdDate | K_isNew

datatype jsval = JStr string | JBool bool

type_synonym CustomerRow = "field \<rightharpoonup> jsval"

text \<open>\<^verbatim>\<open>type EditCache = Record<string, Partial<CustomerRow>>\<close>\<close>

type_synonym RowEdit = "field \<rightharpoonup> jsval"

type_synonym EditCache = "string \<rightharpoonup> RowEdit"

text \<open>
  \<^verbatim>\<open>editCache[r.id]\<close> uses the value of \<^verbatim>\<open>r.id\<close> as a property key: a string is
  its own key, any other value is converted to its string form.
\<close>

definition id_key :: "CustomerRow \<Rightarrow> string" where
  "id_key r =
     (case r K_id of
        Some (JStr s) \<Rightarrow> s
      | Some (JBool b) \<Rightarrow> (if b then ''true'' else ''false'')
      | None \<Rightarrow> ''undefined'')"

text \<open>
  \<^verbatim>\<open>rows.map((r) => ({ ...r, ...(editCache[r.id] ?? {}) }))\<close>: the properties of the
  overlay entry are written over those of the row.
\<close>

definition applyEdits :: "EditCache \<Rightarrow> CustomerRow list \<Rightarrow> CustomerRow list" where
  "applyEdits cache rows =
     map (\<lambda>r. r ++ (case cache (id_key r) of Some e \<Rightarrow> e | None \<Rightarrow> Map.empty)) rows"

section \<open>The state of the editor\<close>

text \<open>
  The state cells of the component \<^verbatim>\<open>TableEditor\<close>, one field for each
  \<^verbatim>\<open>useState\<close>. \<^verbatim>\<open>isError\<close> is \<^verbatim>\<open>null\<close> or the message.
\<close>

record TableEditor =
  allRows :: "CustomerRow list"
  data :: "CustomerRow list"
  isLoading :: bool
  isError :: "string option"
  hasMore :: bool
  editCache :: EditCache

text \<open>
  The initial values of the state cells. The overlay is what the browser's local storage
  held (the empty object when it held nothing that parses).
\<close>

definition initial :: "EditCache \<Rightarrow> TableEditor" where
  "initial stored =
     \<lparr> allRows = [], data = [], isLoading = False, isError = None, hasMore = True,
       editCache = stored \<rparr>"

text \<open>
  \<^verbatim>\<open>updateCell(rowId, key, value)\<close> runs two state updaters: the overlay entry of
  \<^verbatim>\<open>rowId\<close> gets the property \<^verbatim>\<open>key\<close>, and so does every visible row whose
  \<^verbatim>\<open>id\<close> is \<^verbatim>\<open>rowId\<close> (compared with \<^verbatim>\<open>===\<close>).
\<close>

definition updateCell :: "string \<Rightarrow> field \<Rightarrow> string \<Rightarrow> TableEditor \<Rightarrow> TableEditor" where
  "updateCell rowId key v s =
     s\<lparr> editCache :=
          (editCache s)(rowId \<mapsto>
            (case editCache s rowId of Some e \<Rightarrow> e | None \<Rightarrow> Map.empty)(key \<mapsto> JStr v)),
        data :=
          map (\<lambda>r. if r K_id = Some (JStr rowId) then r(key \<mapsto> JStr v) else r) (data s) \<rparr>"

section \<open>Strings and dates of the JavaScript library\<close>

text \<open>
  The library functions the program calls, written out from the ECMAScript definition.
  A string is a list of characters, each a code unit below 256. Division and remainder of
  integers round down, as the time functions of the definition do.
\<close>

text \<open>\<^verbatim>\<open>String(n)\<close> for a natural number: its decimal digits.\<close>

fun String_nat :: "nat \<Rightarrow> string" where
  "String_nat n =
     (if n < 10 then [char_of (48 + n)]
      else String_nat (n div 10) @ [char_of (48 + n mod 10)])"

declare String_nat.simps [simp del]

text \<open>
  \<^verbatim>\<open>s.trim()\<close> removes white space and line terminators at both ends: tab, line feed,
  vertical tab, form feed, carriage return, space and the no-break space.
\<close>

definition is_white :: "char \<Rightarrow> bool" where
  "is_white c = (of_char c \<in> {9, 10, 11, 12, 13, 32, 160 :: nat})"

definition trim :: "string \<Rightarrow> string" where
  "trim s = rev (dropWhile is_white (rev (dropWhile is_white s)))"

text \<open>\<^verbatim>\<open>s.replace(a, b)\<close> for one-character strings: the first \<open>a\<close> becomes \<open>b\<close>.\<close>

fun replace_char :: "char \<Rightarrow> char \<Rightarrow> string \<Rightarrow> string" where
  "replace_char a b [] = []"
| "replace_char a b (c # cs) = (if c = a then b # cs else c # replace_char a b cs)"

text \<open>\<^verbatim>\<open>xs.slice(a, b)\<close> for indices that are not negative.\<close>

definition slice :: "'a list \<Rightarrow> nat \<Rightarrow> nat \<Rightarrow> 'a list" where
  "slice xs a b = take (b - a) (drop a xs)"

text \<open>
  What a \<^verbatim>\<open>catch\<close> clause receives: the \<^verbatim>\<open>message\<close> of the thrown value, when
  it has one.
\<close>

datatype thrown = Thrown "string option"

text \<open>
  A time value is a number of milliseconds since 1970-01-01T00:00:00Z. The civil date of
  a day number (days since 1970-01-01) in the proleptic Gregorian calendar, as year,
  month and day of the month.
\<close>

definition civil_from_days :: "int \<Rightarrow> int \<times> int \<times> int" where
  "civil_from_days z0 =
     (let z = z0 + 719468;
          era = z div 146097;
          doe = z - era * 146097;
          yoe = (doe - doe div 1460 + doe div 36524 - doe div 146096) div 365;
          doy = doe - (365 * yoe + yoe div 4 - yoe div 100);
          mp = (5 * doy + 2) div 153;
          d = doy - (153 * mp + 2) div 5 + 1;
          m = (if mp < 10 then mp + 3 else mp - 9);
          y = yoe + era * 400
      in (if m \<le> 2 then y + 1 else y, m, d))"

definition pad :: "nat \<Rightarrow> nat \<Rightarrow> string" where
  "pad w n = replicate (w - length (String_nat n)) CHR ''0'' @ String_nat n"

text \<open>
  The year of an ISO string: four digits from 0 to 9999, and a sign with six digits
  otherwise.
\<close>

definition iso_year :: "int \<Rightarrow> string" where
  "iso_year y =
     (if 0 \<le> y \<and> y \<le> 9999 then pad 4 (nat y)
      else if y < 0 then CHR ''-'' # pad 6 (nat (- y))
      else CHR ''+'' # pad 6 (nat y))"

text \<open>
  \<^verbatim>\<open>new Date(t).toISOString()\<close>: \<^verbatim>\<open>YYYY-MM-DDTHH:mm:ss.sssZ\<close>. A time value beyond
  8.64e15 milliseconds on either side makes an invalid date, for which the method throws a
  \<^verbatim>\<open>RangeError\<close>.
\<close>

definition toISOString :: "int \<Rightarrow> thrown + string" where
  "toISOString t =
     (if t < - 8640000000000000 \<or> 8640000000000000 < t
      then Inl (Thrown (Some ''Invalid time value''))
      else
        (case civil_from_days (t div 86400000) of (y, m, d) \<Rightarrow>
           Inr (iso_year y @ ''-'' @ pad 2 (nat m) @ ''-'' @ pad 2 (nat d) @ ''T''
                @ pad 2 (nat (t div 3600000 mod 24)) @ '':''
                @ pad 2 (nat (t div 60000 mod 60)) @ '':''
                @ pad 2 (nat (t div 1000 mod 60)) @ ''.''
                @ pad 3 (nat (t mod 1000)) @ ''Z'')))"

text \<open>
  \<^verbatim>\<open>new Date(t).toISOString().slice(0, 19).replace("T", " ")\<close>, the text of
  \<^verbatim>\<open>createdDate\<close>.
\<close>

definition date_text :: "int \<Rightarrow> thrown + string" where
  "date_text t =
     (case toISOString t of
        Inl e \<Rightarrow> Inl e
      | Inr str \<Rightarrow> Inr (replace_char CHR ''T'' CHR '' '' (slice str 0 19)))"

text \<open>
  For the proofs: the part of an ISO string up to the seconds, as a function of the time
  value in whole seconds.
\<close>

definition iso_to_seconds :: "int \<Rightarrow> string" where
  "iso_to_seconds q =
     (case civil_from_days (q div 86400) of (y, m, d) \<Rightarrow>
        iso_year y @ ''-'' @ pad 2 (nat m) @ ''-'' @ pad 2 (nat d) @ ''T''
        @ pad 2 (nat (q div 3600 mod 24)) @ '':''
        @ pad 2 (nat (q div 60 mod 60)) @ '':''
        @ pad 2 (nat (q mod 60)))"

text \<open>
  The readings of a clock that stands between 1970 and the last time value. For them the
  dates the program computes exist.
\<close>

definition clock_ok :: "int \<Rightarrow> bool" where
  "clock_ok t = (0 \<le> t \<and> t \<le> 8640000000000000)"

section \<open>The mapper of remote records\<close>

text \<open>
  A remote record is \<^verbatim>\<open>Record<string, any>\<close>. The mapper reads ten of its
  properties and casts what it finds to \<^verbatim>\<open>string\<close>; the model takes each of them as
  absent or a string, and \<^verbatim>\<open>name\<close> as absent, a string or an object with
  \<^verbatim>\<open>first\<close> and \<^verbatim>\<open>last\<close>. Values of other JSON types are outside the model.
\<close>

datatype name_value = NameString string | NameObject "string option" "string option"

record RemoteRow =
  item_guid :: "string option"
  item_id :: "string option"
  item__id :: "string option"
  item_name :: "name_value option"
  item_username :: "string option"
  item_email :: "string option"
  item_bio :: "string option"
  item_company :: "string option"
  item_eyeColor :: "string option"
  item_favoriteFruit :: "string option"

text \<open>The remote record \<^verbatim>\<open>{}\<close>, which has none of the properties.\<close>

definition empty_object :: RemoteRow where
  "empty_object =
     \<lparr> item_guid = None, item_id = None, item__id = None, item_name = None,
       item_username = None, item_email = None, item_bio = None, item_company = None,
       item_eyeColor = None, item_favoriteFruit = None \<rparr>"

text \<open>\<^verbatim>\<open>a || b\<close>: \<open>a\<close> when it is a string that is not empty, else \<open>b\<close>.\<close>

definition js_or :: "string option \<Rightarrow> string \<Rightarrow> string" where
  "js_or a b = (case a of Some s \<Rightarrow> (if s = [] then b else s) | None \<Rightarrow> b)"

text \<open>\<^verbatim>\<open>a ?? ""\<close>\<close>

definition or_empty :: "string option \<Rightarrow> string" where
  "or_empty a = (case a of Some s \<Rightarrow> s | None \<Rightarrow> [])"

definition RANDOM_STATES :: "string list" where
  "RANDOM_STATES =
     [''CA'', ''NY'', ''TX'', ''FL'', ''IL'', ''PA'', ''OH'', ''GA'', ''NC'', ''MI'']"

definition RANDOM_VERSIONS :: "string list" where
  "RANDOM_VERSIONS = [''new customer'', ''served'', ''to contact'', ''pause'']"

definition map_name :: "RemoteRow \<Rightarrow> nat \<Rightarrow> string" where
  "map_name item idx =
     (let fallback =
            js_or (item_username item) (js_or (item_email item) (''User '' @ String_nat idx))
      in case item_name item of
           Some (NameString s) \<Rightarrow> (if s \<noteq> [] then s else fallback)
         | Some (NameObject first_name last_name) \<Rightarrow>
             (if js_or first_name (js_or last_name []) \<noteq> []
              then trim (or_empty first_name @ '' '' @ or_empty last_name)
              else fallback)
         | None \<Rightarrow> fallback)"

text \<open>
  \<^verbatim>\<open>mapRemoteToCustomer(item, idx)\<close> reads the clock (\<^verbatim>\<open>Date.now()\<close>); the reading
  is the first argument of the model.
\<close>

definition mapRemoteToCustomer :: "int \<Rightarrow> RemoteRow \<Rightarrow> nat \<Rightarrow> thrown + CustomerRow" where
  "mapRemoteToCustomer now item idx =
     (let id' = js_or (item_guid item) (js_or (item_id item) (js_or (item__id item) (String_nat idx)));
          name = map_name item idx;
          bio = js_or (item_bio item) [];
          language =
            js_or (item_company item)
              (js_or (item_eyeColor item) (js_or (item_favoriteFruit item) []));
          state = RANDOM_STATES ! (idx mod length RANDOM_STATES);
          version = RANDOM_VERSIONS ! (idx mod length RANDOM_VERSIONS)
      in case date_text (now - int (idx mod 365) * 24 * 60 * 60 * 1000) of
           Inl e \<Rightarrow> Inl e
         | Inr createdDate \<Rightarrow>
             Inr [K_id \<mapsto> JStr id', K_name \<mapsto> JStr name, K_bio \<mapsto> JStr bio,
                  K_language \<mapsto> JStr language, K_state \<mapsto> JStr state,
                  K_createdDate \<mapsto> JStr createdDate, K_version \<mapsto> JStr version])"

text \<open>
  \<^verbatim>\<open>json.map(mapRemoteToCustomer)\<close>, from index \<open>i\<close> on: the first call that throws
  ends the loop. \<open>clock i\<close> is the reading of the clock in the call for index \<open>i\<close>.
\<close>

fun json_map :: "(nat \<Rightarrow> int) \<Rightarrow> RemoteRow list \<Rightarrow> nat \<Rightarrow> thrown + CustomerRow list" where
  "json_map clock [] i = Inr []"
| "json_map clock (item # items) i =
     (case mapRemoteToCustomer (clock i) item i of
        Inl e \<Rightarrow> Inl e
      | Inr r \<Rightarrow>
          (case json_map clock items (Suc i) of
             Inl e \<Rightarrow> Inl e
           | Inr rs \<Rightarrow> Inr (r # rs)))"

section \<open>Loading: the fetch, the pages and new rows\<close>

definition PAGE_SIZE :: nat where
  "PAGE_SIZE = 40"

text \<open>
  What the one \<^verbatim>\<open>fetch\<close> of the component ends with: a rejected promise (the network
  failed), or a response with its status and its body; \<^verbatim>\<open>res.json()\<close> throws on a body
  that does not parse, and gives the array of remote records otherwise.
\<close>

datatype body = NotJson thrown | Json "RemoteRow list"

datatype fetched = Rejected thrown | Response nat body

text \<open>\<^verbatim>\<open>e?.message ?? "Failed to load data"\<close>\<close>

definition catch_message :: "thrown \<Rightarrow> string" where
  "catch_message e = (case e of Thrown (Some m) \<Rightarrow> m | Thrown None \<Rightarrow> ''Failed to load data'')"

text \<open>The two state updates of \<^verbatim>\<open>fetchData\<close> before it awaits the response.\<close>

definition fetchData_start :: "TableEditor \<Rightarrow> TableEditor" where
  "fetchData_start s = s\<lparr>isLoading := True, isError := None\<rparr>"

text \<open>
  The \<^verbatim>\<open>try\<close> block of \<^verbatim>\<open>fetchData\<close> once the fetch has ended: \<open>Inl\<close> is what it
  throws. \<^verbatim>\<open>res.ok\<close> holds for the statuses from 200 to 299. \<open>cancelled\<close> is the flag
  the cleanup of the effect sets; with it the block returns before it touches the state.
  The overlay that \<^verbatim>\<open>applyEdits\<close> closes over is the one of the state: the effect
  depends on \<^verbatim>\<open>applyEdits\<close>, so a change of the overlay cleans the effect up and runs
  it again.
\<close>

definition fetchData_try ::
  "(nat \<Rightarrow> int) \<Rightarrow> fetched \<Rightarrow> bool \<Rightarrow> TableEditor \<Rightarrow> thrown + TableEditor" where
  "fetchData_try clock res cancelled s =
     (case res of
        Rejected e \<Rightarrow> Inl e
      | Response status b \<Rightarrow>
          if \<not> (200 \<le> status \<and> status \<le> 299)
          then Inl (Thrown (Some (''HTTP '' @ String_nat status)))
          else
            (case b of
               NotJson e \<Rightarrow> Inl e
             | Json json \<Rightarrow>
                 if cancelled then Inr s
                 else
                   (case json_map clock json 0 of
                      Inl e \<Rightarrow> Inl e
                    | Inr mapped \<Rightarrow>
                        Inr (s\<lparr> allRows := mapped,
                                data := applyEdits (editCache s) (slice mapped 0 PAGE_SIZE),
                                hasMore := (length mapped > PAGE_SIZE) \<rparr>))))"

text \<open>The \<^verbatim>\<open>catch\<close> and \<^verbatim>\<open>finally\<close> clauses around the block.\<close>

definition fetchData_settle ::
  "(nat \<Rightarrow> int) \<Rightarrow> fetched \<Rightarrow> bool \<Rightarrow> TableEditor \<Rightarrow> TableEditor" where
  "fetchData_settle clock res cancelled s =
     (let s1 = (case fetchData_try clock res cancelled s of
                  Inl e \<Rightarrow> s\<lparr>isError := Some (catch_message e)\<rparr>
                | Inr s' \<Rightarrow> s')
      in if \<not> cancelled then s1\<lparr>isLoading := False\<rparr> else s1)"

definition fetchData :: "(nat \<Rightarrow> int) \<Rightarrow> fetched \<Rightarrow> bool \<Rightarrow> TableEditor \<Rightarrow> TableEditor" where
  "fetchData clock res cancelled s = fetchData_settle clock res cancelled (fetchData_start s)"

text \<open>
  \<^verbatim>\<open>loadMore\<close>: the updater of the visible page takes the next slice of the full record
  set, starting at the length of the visible page; an empty slice leaves the page as it is.
  The loading flag is set and reset around the update.
\<close>

definition loadMore :: "TableEditor \<Rightarrow> TableEditor" where
  "loadMore s =
     (let prev = data s;
          nextIndex = length prev;
          nextSlice = slice (allRows s) nextIndex (nextIndex + PAGE_SIZE)
      in if length nextSlice = 0 then s\<lparr>isLoading := False\<rparr>
         else
           let merged = prev @ applyEdits (editCache s) nextSlice
           in s\<lparr> data := merged,
                 hasMore := (if length merged \<ge> length (allRows s) then False else hasMore s),
                 isLoading := False \<rparr>)"

text \<open>\<^verbatim>\<open>`${n}`\<close> for an integer.\<close>

definition String_int :: "int \<Rightarrow> string" where
  "String_int i = (if i < 0 then CHR ''-'' # String_nat (nat (- i)) else String_nat (nat i))"

text \<open>
  \<^verbatim>\<open>addNewRow\<close> reads the clock twice, for the id and for the date, and puts the new
  row in front of the visible page. Were the date to throw, the handler would end before
  the update.
\<close>

definition addNewRow :: "int \<Rightarrow> int \<Rightarrow> TableEditor \<Rightarrow> TableEditor" where
  "addNewRow now now' s =
     (case date_text now' of
        Inl e \<Rightarrow> s
      | Inr createdDate \<Rightarrow>
          s\<lparr> data :=
               [K_id \<mapsto> JStr (''new-'' @ String_int now), K_bio \<mapsto> JStr [],
                K_name \<mapsto> JStr [], K_language \<mapsto> JStr [],
                K_version \<mapsto> JStr ''new customer'', K_state \<mapsto> JStr [],
                K_createdDate \<mapsto> JStr createdDate, K_isNew \<mapsto> JBool True] # data s \<rparr>)"

section \<open>The editable text cell\<close>

text \<open>
  The properties of \<^verbatim>\<open>EditableTextCell\<close> in \<^verbatim>\<open>columns.tsx\<close>. The callback is
  \<^verbatim>\<open>table?.options?.meta?.updateCell\<close>, which may be missing; \<open>rowId\<close> is the id of
  the row of the cell.
\<close>

record cell_props =
  rowId :: string
  columnKey :: field
  meta_updateCell :: "(string \<Rightarrow> field \<Rightarrow> string \<Rightarrow> TableEditor \<Rightarrow> TableEditor) option"
  placeholder :: "string option"
  validate :: "(string \<Rightarrow> bool) option"
  errorMessage :: "string option"

text \<open>The state cells of one cell: the text of the input, the mode, the message.\<close>

record cell =
  value' :: string
  editing :: bool
  error :: string

text \<open>\<^verbatim>\<open>commit\<close>, on the state of the cell and the state of the editor.\<close>

definition commit :: "cell_props \<Rightarrow> cell \<Rightarrow> TableEditor \<Rightarrow> cell \<times> TableEditor" where
  "commit p c s =
     (case meta_updateCell p of
        None \<Rightarrow> (c\<lparr>editing := False\<rparr>, s)
      | Some upd \<Rightarrow>
          let ok = (case validate p of Some f \<Rightarrow> f (value' c) | None \<Rightarrow> True)
          in if \<not> ok then (c\<lparr>error := js_or (errorMessage p) ''Invalid value''\<rparr>, s)
             else (c\<lparr>error := [], editing := False\<rparr>,
                   upd (rowId p) (columnKey p) (value' c) s))"

text \<open>\<^verbatim>\<open>cancel\<close>; \<open>initialValue\<close> is the value of the row the cell shows.\<close>

definition cancel :: "string \<Rightarrow> cell \<Rightarrow> cell" where
  "cancel initialValue c = c\<lparr>value' := initialValue, error := [], editing := False\<rparr>"

text \<open>
  The validators of the columns. \<^verbatim>\<open>/^[A-Z]{2}$/.test(s)\<close>: the string is two
  characters, each a letter from A to Z.
\<close>

definition is_AZ :: "char \<Rightarrow> bool" where
  "is_AZ c = (65 \<le> (of_char c :: nat) \<and> (of_char c :: nat) \<le> 90)"

fun test_AZ2 :: "string \<Rightarrow> bool" where
  "test_AZ2 [a, b] = (is_AZ a \<and> is_AZ b)"
| "test_AZ2 _ = False"

definition validate_required :: "string \<Rightarrow> bool" where
  "validate_required v = (length (trim v) > 0)"

definition validate_state :: "string \<Rightarrow> bool" where
  "validate_state v = test_AZ2 (trim v)"

text \<open>
  The text cells of the array \<^verbatim>\<open>columns\<close>, by the key of the column: bio, name,
  language and state. The other columns have no text cell.
\<close>

definition columns ::
  "field \<Rightarrow> string \<Rightarrow> (string \<Rightarrow> field \<Rightarrow> string \<Rightarrow> TableEditor \<Rightarrow> TableEditor) option
     \<Rightarrow> cell_props option" where
  "columns k rid upd =
     (case k of
        K_bio \<Rightarrow>
          Some \<lparr> rowId = rid, columnKey = K_bio, meta_updateCell = upd,
                 placeholder = Some ''Enter bio'', validate = None, errorMessage = None \<rparr>
      | K_name \<Rightarrow>
          Some \<lparr> rowId = rid, columnKey = K_name, meta_updateCell = upd,
                 placeholder = Some ''Required'', validate = Some validate_required,
                 errorMessage = Some ''Name is required'' \<rparr>
      | K_language \<Rightarrow>
          Some \<lparr> rowId = rid, columnKey = K_language, meta_updateCell = upd,
                 placeholder = Some ''Enter language'', validate = Some validate_required,
                 errorMessage = Some ''Language is required'' \<rparr>
      | K_state \<Rightarrow>
          Some \<lparr> rowId = rid, columnKey = K_state, meta_updateCell = upd,
                 placeholder = Some ''State (e.g., CA)'', validate = Some validate_state,
                 errorMessage = Some ''Use 2 uppercase letters'' \<rparr>
      | _ \<Rightarrow> None)"

text \<open>
  The words of the specification for the validator of the region code: the value, with
  the white space at both ends removed, is exactly two uppercase letters.
\<close>

definition two_uppercase_after_trimming :: "string \<Rightarrow> bool" where
  "two_uppercase_after_trimming v =
     (\<exists>pre a b post. v = pre @ [a, b] @ post \<and> list_all is_white pre \<and> list_all is_white post
        \<and> is_AZ a \<and> is_AZ b)"

section \<open>Properties of the overlay\<close>

lemma applyEdits_length: "length (applyEdits cache rows) = length rows"
  by (simp add: applyEdits_def)

text \<open>
  C2. Two edits of the same row in different fields: the overlay entry of the row holds
  both values afterwards, and every other field of the entry is as it was before the two
  edits. The second edit merges into the entry; it does not replace it.
\<close>

theorem updateCell_keeps_other_field:
  assumes "f1 \<noteq> f2"
  shows "\<exists>e. editCache (updateCell r f2 v2 (updateCell r f1 v1 s)) r = Some e
           \<and> e f1 = Some (JStr v1) \<and> e f2 = Some (JStr v2)
           \<and> e = (case editCache s r of Some e0 \<Rightarrow> e0 | None \<Rightarrow> Map.empty)
                   (f1 \<mapsto> JStr v1, f2 \<mapsto> JStr v2)"
  using assms by (simp add: updateCell_def)

theorem updateCell_keeps_other_field_witness:
  "K_bio \<noteq> K_state \<and>
   (\<exists>e. editCache (updateCell ''row-3'' K_state ''CA''
            (updateCell ''row-3'' K_bio ''hi'' (initial Map.empty))) ''row-3'' = Some e
       \<and> e K_bio = Some (JStr ''hi'') \<and> e K_state = Some (JStr ''CA''))"
  using updateCell_keeps_other_field [of K_bio K_state "''row-3''" "''CA''" "''hi''"
      "initial Map.empty"]
  by auto

text \<open>
  C5. A row whose id has no entry in the overlay comes out of \<open>applyEdits\<close> with every
  field as it went in, at the same position of the list.
\<close>

theorem applyEdits_no_entry:
  assumes "i < length rows" and "cache (id_key (rows ! i)) = None"
  shows "applyEdits cache rows ! i = rows ! i"
  using assms by (simp add: applyEdits_def)

theorem applyEdits_no_entry_witness:
  "(1::nat) < length [[K_id \<mapsto> JStr ''a'', K_bio \<mapsto> JStr ''old''], [K_id \<mapsto> JStr ''b'']]
   \<and> [''a'' \<mapsto> [K_bio \<mapsto> JStr ''hi'']]
        (id_key ([[K_id \<mapsto> JStr ''a'', K_bio \<mapsto> JStr ''old''], [K_id \<mapsto> JStr ''b'']] ! 1))
      = None
   \<and> applyEdits [''a'' \<mapsto> [K_bio \<mapsto> JStr ''hi'']]
        [[K_id \<mapsto> JStr ''a'', K_bio \<mapsto> JStr ''old''], [K_id \<mapsto> JStr ''b'']] ! 1
      = [K_id \<mapsto> JStr ''b'']"
  using applyEdits_no_entry [of 1
      "[[K_id \<mapsto> JStr ''a'', K_bio \<mapsto> JStr ''old''], [K_id \<mapsto> JStr ''b'']]"
      "[''a'' \<mapsto> [K_bio \<mapsto> JStr ''hi'']]"]
  by (simp add: id_key_def)

text \<open>
  C10. The frame of \<open>updateCell rid key v\<close>: the visible page keeps its length; a row
  whose id is not \<open>rid\<close> stays as it is, at its position, and a row whose id is
  \<open>rid\<close> stays at its position with the one field written; the overlay entries of all
  other ids, the full record set and the flags are untouched; when no visible row has the
  id, the visible page is unchanged. In every case the overlay has an entry for \<open>rid\<close>
  afterwards: the former entry, or the empty one, with the value written.
\<close>

theorem updateCell_frame:
  "length (data (updateCell rid key v s)) = length (data s)
   \<and> (\<forall>i < length (data s).
        data (updateCell rid key v s) ! i =
          (if (data s ! i) K_id = Some (JStr rid) then (data s ! i)(key \<mapsto> JStr v)
           else data s ! i))
   \<and> (\<forall>k. k \<noteq> rid \<longrightarrow> editCache (updateCell rid key v s) k = editCache s k)
   \<and> ((\<forall>r \<in> set (data s). r K_id \<noteq> Some (JStr rid)) \<longrightarrow>
        data (updateCell rid key v s) = data s)
   \<and> editCache (updateCell rid key v s) rid
        = Some ((case editCache s rid of Some e \<Rightarrow> e | None \<Rightarrow> Map.empty)(key \<mapsto> JStr v))
   \<and> allRows (updateCell rid key v s) = allRows s
   \<and> hasMore (updateCell rid key v s) = hasMore s
   \<and> isLoading (updateCell rid key v s) = isLoading s
   \<and> isError (updateCell rid key v s) = isError s"
proof -
  have "(\<forall>r \<in> set (data s). r K_id \<noteq> Some (JStr rid)) \<longrightarrow>
          data (updateCell rid key v s) = data s"
    by (simp add: updateCell_def map_idI)
  then show ?thesis
    by (simp add: updateCell_def)
qed

theorem updateCell_frame_witness:
  "data (updateCell ''zz'' K_bio ''x''
      ((initial Map.empty)\<lparr>data := [[K_id \<mapsto> JStr ''a''], [K_id \<mapsto> JStr ''b'']]\<rparr>))
     = [[K_id \<mapsto> JStr ''a''], [K_id \<mapsto> JStr ''b'']]
   \<and> data (updateCell ''a'' K_bio ''x''
      ((initial Map.empty)\<lparr>data := [[K_id \<mapsto> JStr ''a''], [K_id \<mapsto> JStr ''b'']]\<rparr>)) ! 1
     = [K_id \<mapsto> JStr ''b'']
   \<and> editCache (updateCell ''zz'' K_bio ''x''
      ((initial [''a'' \<mapsto> [K_bio \<mapsto> JStr ''hi'']])\<lparr>data := [[K_id \<mapsto> JStr ''a'']]\<rparr>)) ''a''
     = Some [K_bio \<mapsto> JStr ''hi'']"
proof -
  let ?d = "[[K_id \<mapsto> JStr ''a''], [K_id \<mapsto> JStr ''b'']] :: CustomerRow list"
  let ?s = "(initial Map.empty)\<lparr>data := ?d\<rparr>"
  let ?t = "(initial [''a'' \<mapsto> [K_bio \<mapsto> JStr ''hi'']])\<lparr>data := [[K_id \<mapsto> JStr ''a'']]\<rparr>"
  have absent: "\<forall>r \<in> set (data ?s). r K_id \<noteq> Some (JStr ''zz'')"
    by simp
  have one: "(1::nat) < length (data ?s)"
    by simp
  have other: "(data ?s ! 1) K_id \<noteq> Some (JStr ''a'')"
    by simp
  have key: "''a'' \<noteq> ''zz''"
    by simp
  from updateCell_frame [of "''zz''" K_bio "''x''" ?s] absent
  have a: "data (updateCell ''zz'' K_bio ''x'' ?s) = ?d"
    by simp
  from updateCell_frame [of "''a''" K_bio "''x''" ?s] one other
  have b: "data (updateCell ''a'' K_bio ''x'' ?s) ! 1 = [K_id \<mapsto> JStr ''b'']"
    by simp
  from updateCell_frame [of "''zz''" K_bio "''x''" ?t] key
  have c: "editCache (updateCell ''zz'' K_bio ''x'' ?t) ''a'' = Some [K_bio \<mapsto> JStr ''hi'']"
    by (simp add: initial_def)
  from a b c show ?thesis by simp
qed

text \<open>
  An overlay entry may hold any key of a row, the id too: \<open>updateCell\<close> takes every
  \<^verbatim>\<open>keyof CustomerRow\<close>. Such an entry renames the row, and a second application
  then looks the row up under its new id.
\<close>

lemma id_key_add:
  assumes "e K_id = None"
  shows "id_key (r ++ e) = id_key r"
  using assms by (simp add: id_key_def map_add_def)

lemma applyEdits_twice_row:
  assumes "\<forall>k e. cache k = Some e \<longrightarrow> e K_id = None"
  shows "applyEdits cache (applyEdits cache [r]) = applyEdits cache [r]"
proof (cases "cache (id_key r)")
  case None
  then show ?thesis by (simp add: applyEdits_def)
next
  case (Some e)
  with assms have "e K_id = None" by blast
  then have "id_key (r ++ e) = id_key r" by (rule id_key_add)
  moreover have "r ++ e ++ e = r ++ e"
    by (rule ext) (simp add: map_add_def split: option.splits)
  ultimately show ?thesis using Some by (simp add: applyEdits_def)
qed

text \<open>
  C6, as the claim states it, fails: the entry of row \<open>a\<close> sets the id to \<open>b\<close>, and
  the overlay has an entry for \<open>b\<close> as well. The first application renames the row, the
  second one writes the bio of \<open>b\<close> into it.
\<close>

theorem applyEdits_twice_counterexample:
  "applyEdits [''a'' \<mapsto> [K_id \<mapsto> JStr ''b''], ''b'' \<mapsto> [K_bio \<mapsto> JStr ''x'']]
     (applyEdits [''a'' \<mapsto> [K_id \<mapsto> JStr ''b''], ''b'' \<mapsto> [K_bio \<mapsto> JStr ''x'']]
        [[K_id \<mapsto> JStr ''a'', K_bio \<mapsto> JStr ''old'']])
   \<noteq> applyEdits [''a'' \<mapsto> [K_id \<mapsto> JStr ''b''], ''b'' \<mapsto> [K_bio \<mapsto> JStr ''x'']]
        [[K_id \<mapsto> JStr ''a'', K_bio \<mapsto> JStr ''old'']]"
proof
  let ?c = "[''a'' \<mapsto> [K_id \<mapsto> JStr ''b''], ''b'' \<mapsto> [K_bio \<mapsto> JStr ''x'']] :: EditCache"
  let ?rows = "[[K_id \<mapsto> JStr ''a'', K_bio \<mapsto> JStr ''old'']] :: CustomerRow list"
  assume "applyEdits ?c (applyEdits ?c ?rows) = applyEdits ?c ?rows"
  then have "hd (applyEdits ?c (applyEdits ?c ?rows)) K_bio = hd (applyEdits ?c ?rows) K_bio"
    by simp
  then show False
    by (simp add: applyEdits_def id_key_def)
qed

text \<open>
  C6, amended: when no entry of the overlay holds the id field, applying the overlay twice
  gives the same rows as applying it once. The editable cells of the grid write the fields
  bio, name, language, version and state only.
\<close>

theorem applyEdits_twice:
  assumes "\<forall>k e. cache k = Some e \<longrightarrow> e K_id = None"
  shows "applyEdits cache (applyEdits cache rows) = applyEdits cache rows"
proof (induction rows)
  case Nil
  show ?case by (simp add: applyEdits_def)
next
  case (Cons r rows)
  from applyEdits_twice_row [OF assms, of r] Cons show ?case
    by (simp add: applyEdits_def)
qed

theorem applyEdits_twice_witness:
  "applyEdits [''row-3'' \<mapsto> [K_bio \<mapsto> JStr ''hi'']]
     (applyEdits [''row-3'' \<mapsto> [K_bio \<mapsto> JStr ''hi'']]
        [[K_id \<mapsto> JStr ''row-3'', K_bio \<mapsto> JStr ''old''], [K_id \<mapsto> JStr ''row-4'']])
   = applyEdits [''row-3'' \<mapsto> [K_bio \<mapsto> JStr ''hi'']]
        [[K_id \<mapsto> JStr ''row-3'', K_bio \<mapsto> JStr ''old''], [K_id \<mapsto> JStr ''row-4'']]"
proof -
  have "\<forall>k e. [''row-3'' \<mapsto> [K_bio \<mapsto> JStr ''hi'']] k = Some e \<longrightarrow> e K_id = None"
    by (auto split: if_splits)
  then show ?thesis
    by (rule applyEdits_twice)
qed

section \<open>Properties of loading\<close>

lemma date_text_ok:
  assumes "- 8640000000000000 \<le> t" and "t \<le> 8640000000000000"
  shows "\<exists>str. date_text t = Inr str"
  using assms by (simp add: date_text_def toISOString_def Let_def split: prod.splits)

lemma mapRemoteToCustomer_ok:
  assumes "clock_ok now"
  shows "\<exists>r. mapRemoteToCustomer now item idx = Inr r"
proof -
  have "int (idx mod 365) \<le> 364" by simp
  then have "- 8640000000000000 \<le> now - int (idx mod 365) * 24 * 60 * 60 * 1000"
    and "now - int (idx mod 365) * 24 * 60 * 60 * 1000 \<le> 8640000000000000"
    using assms by (simp_all add: clock_ok_def)
  then obtain str where "date_text (now - int (idx mod 365) * 24 * 60 * 60 * 1000) = Inr str"
    using date_text_ok by blast
  then show ?thesis
    by (simp add: mapRemoteToCustomer_def Let_def)
qed

lemma json_map_length:
  "json_map clock json i = Inr rows \<Longrightarrow> length rows = length json"
  by (induction json arbitrary: i rows) (auto split: sum.splits)

lemma json_map_ok:
  assumes "\<forall>j. i \<le> j \<and> j < i + length json \<longrightarrow> clock_ok (clock j)"
  shows "\<exists>rows. json_map clock json i = Inr rows"
  using assms
proof (induction json arbitrary: i)
  case Nil
  show ?case by simp
next
  case (Cons item items)
  from Cons.prems have "clock_ok (clock i)" by simp
  then obtain r where "mapRemoteToCustomer (clock i) item i = Inr r"
    using mapRemoteToCustomer_ok by blast
  moreover from Cons.prems have "\<forall>j. Suc i \<le> j \<and> j < Suc i + length items \<longrightarrow> clock_ok (clock j)"
    by simp
  then obtain rs where "json_map clock items (Suc i) = Inr rs"
    using Cons.IH by blast
  ultimately show ?case by simp
qed

lemma fetchData_loaded:
  assumes "json_map clock json 0 = Inr mapped" and "200 \<le> status" and "status \<le> 299"
  shows "fetchData clock (Response status (Json json)) False s =
           s\<lparr> allRows := mapped,
               data := applyEdits (editCache s) (take PAGE_SIZE mapped),
               hasMore := (PAGE_SIZE < length mapped),
               isLoading := False, isError := None \<rparr>"
  using assms
  by (simp add: fetchData_def fetchData_settle_def fetchData_try_def fetchData_start_def slice_def)

lemma loadMore_data_length:
  "length (data (loadMore s)) =
     length (data s) + min PAGE_SIZE (length (allRows s) - length (data s))"
  by (simp add: loadMore_def Let_def slice_def applyEdits_length min_def)

lemma loadMore_hasMore:
  "hasMore (loadMore s) =
     (if length (data s) < length (allRows s) \<and> length (allRows s) \<le> length (data s) + PAGE_SIZE
      then False else hasMore s)"
  by (auto simp add: loadMore_def Let_def slice_def applyEdits_length PAGE_SIZE_def)

lemma loadMore_data:
  "data (loadMore s) =
     data s @ applyEdits (editCache s)
       (slice (allRows s) (length (data s)) (length (data s) + PAGE_SIZE))"
  by (simp add: loadMore_def Let_def applyEdits_def)

lemma loadMore_exhausted:
  assumes "length (allRows s) \<le> length (data s)" and "\<not> isLoading s"
  shows "loadMore s = s"
  using assms by (simp add: loadMore_def Let_def slice_def)


lemma loadMore_funpow_exhausted:
  assumes "length (allRows s) \<le> length (data s)" and "\<not> isLoading s"
  shows "(loadMore ^^ n) s = s"
  using assms by (induction n) (simp_all add: loadMore_exhausted)

lemma loadMore_allRows: "allRows (loadMore s) = allRows s"
  by (simp add: loadMore_def Let_def)

lemma loadMore_isLoading: "\<not> isLoading (loadMore s)"
  by (simp add: loadMore_def Let_def)

text \<open>
  C1. A response with 100 records, mapped while the clock reads valid times: the first
  page shows 40 rows and more remain; one \<open>loadMore\<close> shows 80 and more remain; the next
  shows all 100 and nothing remains; from then on \<open>loadMore\<close> changes nothing at all,
  however often it runs.
\<close>

theorem pages_of_100:
  fixes clock :: "nat \<Rightarrow> int" and json :: "RemoteRow list" and stored :: EditCache
  defines "s0 \<equiv> fetchData clock (Response 200 (Json json)) False (initial stored)"
  assumes "length json = 100" and "\<forall>i < 100. clock_ok (clock i)"
  shows "length (allRows s0) = 100
         \<and> length (data s0) = 40 \<and> hasMore s0
         \<and> length (data (loadMore s0)) = 80 \<and> hasMore (loadMore s0)
         \<and> length (data (loadMore (loadMore s0))) = 100 \<and> \<not> hasMore (loadMore (loadMore s0))
         \<and> (\<forall>n. (loadMore ^^ n) (loadMore (loadMore s0)) = loadMore (loadMore s0))"
proof -
  from assms(2,3) have "\<forall>j. 0 \<le> j \<and> j < 0 + length json \<longrightarrow> clock_ok (clock j)"
    by simp
  then obtain mapped where m: "json_map clock json 0 = Inr mapped"
    using json_map_ok [of 0 json clock] by blast
  with assms(2) have len: "length mapped = 100"
    by (simp add: json_map_length)
  have s0: "s0 = (initial stored)\<lparr> allRows := mapped,
               data := applyEdits (editCache (initial stored)) (take PAGE_SIZE mapped),
               hasMore := (PAGE_SIZE < length mapped),
               isLoading := False, isError := None \<rparr>"
    unfolding s0_def using m by (simp add: fetchData_loaded)
  have a0: "length (allRows s0) = 100" and d0: "length (data s0) = 40" and h0: "hasMore s0"
    using len by (simp_all add: s0 applyEdits_length PAGE_SIZE_def)
  have a1: "length (allRows (loadMore s0)) = 100"
    by (simp add: loadMore_allRows a0)
  have d1: "length (data (loadMore s0)) = 80"
    using loadMore_data_length [of s0] by (simp add: a0 d0 PAGE_SIZE_def)
  have h1: "hasMore (loadMore s0)"
    using loadMore_hasMore [of s0] by (simp add: a0 d0 h0 PAGE_SIZE_def)
  have a2: "length (allRows (loadMore (loadMore s0))) = 100"
    by (simp add: loadMore_allRows a0)
  have d2: "length (data (loadMore (loadMore s0))) = 100"
    using loadMore_data_length [of "loadMore s0"] by (simp add: a1 d1 PAGE_SIZE_def)
  have h2: "\<not> hasMore (loadMore (loadMore s0))"
    using loadMore_hasMore [of "loadMore s0"] by (simp add: a1 d1 PAGE_SIZE_def)
  have "\<forall>n. (loadMore ^^ n) (loadMore (loadMore s0)) = loadMore (loadMore s0)"
    by (simp add: loadMore_funpow_exhausted a2 d2 loadMore_isLoading)
  with a0 d0 h0 d1 h1 d2 h2 show ?thesis by blast
qed

theorem pages_of_100_witness:
  "length (replicate 100 empty_object) = 100
   \<and> length (data (loadMore (fetchData (\<lambda>i. 1762123456789 + int i)
        (Response 200 (Json (replicate 100 empty_object))) False (initial Map.empty)))) = 80"
proof -
  have "\<forall>i < 100. clock_ok ((\<lambda>i. 1762123456789 + int i) i)"
    by (simp add: clock_ok_def)
  with pages_of_100 [of "replicate 100 empty_object" "\<lambda>i. 1762123456789 + int i" Map.empty]
  show ?thesis by simp
qed

lemma addNewRow_frame:
  "allRows (addNewRow now now' s) = allRows s \<and> hasMore (addNewRow now now' s) = hasMore s
   \<and> editCache (addNewRow now now' s) = editCache s
   \<and> isLoading (addNewRow now now' s) = isLoading s
   \<and> isError (addNewRow now now' s) = isError s"
  by (simp add: addNewRow_def split: sum.splits)

lemma addNewRow_data_length:
  assumes "clock_ok now'"
  shows "length (data (addNewRow now now' s)) = Suc (length (data s))"
proof -
  from assms obtain str where "date_text now' = Inr str"
    using date_text_ok [of now'] by (auto simp: clock_ok_def)
  then show ?thesis by (simp add: addNewRow_def)
qed

lemma loadMore_nothing:
  assumes "length (allRows s) \<le> length (data s)"
  shows "data (loadMore s) = data s \<and> hasMore (loadMore s) = hasMore s"
  using assms by (simp add: loadMore_def Let_def slice_def)

text \<open>
  C3, evaluated on the program. \<open>loadMore\<close> starts its slice at the length of the
  visible page, and \<open>addNewRow\<close> puts its row into that same list. With 41 records and
  the first page shown, \<open>loadMore\<close> shows record 41 and clears \<open>hasMore\<close>. After one
  new row the visible page has 41 rows already: the slice from index 41 is empty,
  \<open>loadMore\<close> shows nothing, and \<open>hasMore\<close> stays set. The last record is never shown.
\<close>

theorem new_row_shifts_next_page:
  fixes s1 :: TableEditor
  defines "s1 \<equiv> fetchData (\<lambda>i. 1762123456789)
      (Response 200 (Json (replicate 41 empty_object))) False (initial Map.empty)"
  shows "length (allRows s1) = 41 \<and> length (data s1) = 40 \<and> hasMore s1
    \<and> length (data (loadMore s1)) = 41 \<and> \<not> hasMore (loadMore s1)
    \<and> length (data (addNewRow 1762123460000 1762123460000 s1)) = 41
    \<and> data (loadMore (addNewRow 1762123460000 1762123460000 s1))
        = data (addNewRow 1762123460000 1762123460000 s1)
    \<and> hasMore (loadMore (addNewRow 1762123460000 1762123460000 s1))"
proof -
  let ?clock = "\<lambda>i::nat. 1762123456789 :: int"
  let ?json = "replicate 41 empty_object"
  have "\<forall>j. 0 \<le> j \<and> j < 0 + length ?json \<longrightarrow> clock_ok (?clock j)"
    by (simp add: clock_ok_def)
  then obtain mapped where m: "json_map ?clock ?json 0 = Inr mapped"
    using json_map_ok [of 0 ?json ?clock] by blast
  then have len: "length mapped = 41"
    using json_map_length [of ?clock ?json 0 mapped] by simp
  have s1: "s1 = (initial Map.empty)\<lparr> allRows := mapped,
               data := applyEdits (editCache (initial Map.empty)) (take PAGE_SIZE mapped),
               hasMore := (PAGE_SIZE < length mapped),
               isLoading := False, isError := None \<rparr>"
    unfolding s1_def using m by (simp add: fetchData_loaded)
  have a: "length (allRows s1) = 41" and d: "length (data s1) = 40" and h: "hasMore s1"
    using len by (simp_all add: s1 applyEdits_length PAGE_SIZE_def)
  have d1: "length (data (loadMore s1)) = 41"
    using loadMore_data_length [of s1] by (simp add: a d PAGE_SIZE_def)
  have h1: "\<not> hasMore (loadMore s1)"
    using loadMore_hasMore [of s1] by (simp add: a d PAGE_SIZE_def)
  let ?s2 = "addNewRow 1762123460000 1762123460000 s1"
  have d2: "length (data ?s2) = 41"
    using addNewRow_data_length [of 1762123460000 1762123460000 s1]
    by (simp add: clock_ok_def d)
  have a2: "length (allRows ?s2) = 41" and h2: "hasMore ?s2"
    using addNewRow_frame [of 1762123460000 1762123460000 s1] a h by simp_all
  have n: "data (loadMore ?s2) = data ?s2 \<and> hasMore (loadMore ?s2) = hasMore ?s2"
    by (rule loadMore_nothing) (simp add: a2 d2)
  from a d h d1 h1 d2 n h2 show ?thesis by simp
qed

text \<open>
  A response whose status is not from 200 to 299 makes the \<^verbatim>\<open>try\<close> block throw
  \<^verbatim>\<open>HTTP <status>\<close>. The \<^verbatim>\<open>finally\<close> clause resets the loading flag unless the
  effect has been cleaned up meanwhile (the component was unmounted, or the effect ran
  again); then the flag stays as \<open>fetchData_start\<close> set it.
\<close>

lemma fetchData_cancelled_error:
  assumes "\<not> (200 \<le> status \<and> status \<le> 299)"
  shows "fetchData clock (Response status b) True s =
           s\<lparr>isLoading := True, isError := Some (''HTTP '' @ String_nat status)\<rparr>"
  using assms
  by (simp add: fetchData_def fetchData_settle_def fetchData_try_def fetchData_start_def
      catch_message_def)

text \<open>
  C7. The component is mounted and its fetch answers with a status outside 200 to 299:
  the message \<^verbatim>\<open>HTTP <status>\<close> is set and the loading flag is reset; nothing else
  of the state changes. After the first fetch of a component the visible page and the
  full record set are therefore empty and \<open>hasMore\<close> has its initial value, true.
\<close>

theorem fetch_http_error:
  assumes "\<not> (200 \<le> status \<and> status \<le> 299)"
  shows "fetchData clock (Response status b) False s =
           s\<lparr>isLoading := False, isError := Some (''HTTP '' @ String_nat status)\<rparr>
         \<and> isError (fetchData clock (Response status b) False (initial stored))
             = Some (''HTTP '' @ String_nat status)
         \<and> data (fetchData clock (Response status b) False (initial stored)) = []
         \<and> allRows (fetchData clock (Response status b) False (initial stored)) = []
         \<and> hasMore (fetchData clock (Response status b) False (initial stored)) = True
         \<and> isLoading (fetchData clock (Response status b) False (initial stored)) = False"
  using assms
  by (simp add: fetchData_def fetchData_settle_def fetchData_try_def fetchData_start_def
      catch_message_def initial_def)

theorem fetch_http_error_witness:
  "\<not> (200 \<le> (500::nat) \<and> (500::nat) \<le> 299)
   \<and> isError (fetchData (\<lambda>i. 1762123456789) (Response 500 (Json [])) False (initial Map.empty))
       = Some ''HTTP 500''
   \<and> data (fetchData (\<lambda>i. 1762123456789) (Response 500 (Json [])) False (initial Map.empty)) = []"
proof -
  have "String_nat 500 = ''500''"
    by code_simp
  with fetch_http_error [of 500 "\<lambda>i. 1762123456789" "Json []" "initial Map.empty" Map.empty]
  show ?thesis by (simp add: initial_def)
qed

section \<open>Properties of the mapper\<close>

lemma length_pad: "w \<le> length (pad w n)"
  by (simp add: pad_def)

lemma div_by_seconds:
  fixes t :: int
  shows "t div 86400000 = t div 1000 div 86400"
    and "t div 3600000 = t div 1000 div 3600"
    and "t div 60000 = t div 1000 div 60"
  by (simp_all add: zdiv_zmult2_eq [symmetric])

lemma iso_year_length: "4 \<le> length (iso_year y)"
proof -
  have "4 \<le> length (pad 4 n)" and "3 \<le> length (pad 6 n)" for n
    using length_pad [of 4 n] length_pad [of 6 n] by simp_all
  then show ?thesis
    by (simp add: iso_year_def le_SucI)
qed

lemma iso_to_seconds_length: "19 \<le> length (iso_to_seconds q)"
proof -
  obtain y m d where c: "civil_from_days (q div 86400) = (y, m, d)"
    by (cases "civil_from_days (q div 86400)") auto
  show ?thesis
    unfolding iso_to_seconds_def c
    using iso_year_length [of y] length_pad [of 2 "nat m"] length_pad [of 2 "nat d"]
      length_pad [of 2 "nat (q div 3600 mod 24)"]
      length_pad [of 2 "nat (q div 60 mod 60)"]
      length_pad [of 2 "nat (q mod 60)"]
    by simp
qed

lemma toISOString_Inr:
  assumes "toISOString t = Inr str"
  shows "str = iso_to_seconds (t div 1000) @ (''.'' @ pad 3 (nat (t mod 1000)) @ ''Z'')"
proof -
  obtain y m d where c: "civil_from_days (t div 1000 div 86400) = (y, m, d)"
    by (cases "civil_from_days (t div 1000 div 86400)") auto
  from assms have "\<not> (t < - 8640000000000000 \<or> 8640000000000000 < t)"
    unfolding toISOString_def by (cases "t < - 8640000000000000 \<or> 8640000000000000 < t") simp_all
  with assms show ?thesis
    unfolding toISOString_def iso_to_seconds_def div_by_seconds c
    by simp
qed

lemma date_text_Inr:
  assumes "date_text t = Inr a"
  shows "a = replace_char CHR ''T'' CHR '' '' (take 19 (iso_to_seconds (t div 1000)))"
proof -
  from assms obtain str where s: "toISOString t = Inr str"
    and a: "a = replace_char CHR ''T'' CHR '' '' (slice str 0 19)"
    unfolding date_text_def by (cases "toISOString t") simp_all
  from s have "str = iso_to_seconds (t div 1000) @ (''.'' @ pad 3 (nat (t mod 1000)) @ ''Z'')"
    by (rule toISOString_Inr)
  then have "slice str 0 19 = take 19 (iso_to_seconds (t div 1000))"
    using iso_to_seconds_length [of "t div 1000"] by (simp add: slice_def)
  with a show ?thesis by simp
qed

lemma date_text_same_second:
  assumes "t1 div 1000 = t2 div 1000"
    and "date_text t1 = Inr a" and "date_text t2 = Inr b"
  shows "a = b"
  using date_text_Inr [OF assms(2)] date_text_Inr [OF assms(3)] assms(1) by simp

lemma mapper_split:
  assumes "mapRemoteToCustomer t R i = Inr r"
  shows "\<exists>c. date_text (t - int (i mod 365) * 24 * 60 * 60 * 1000) = Inr c
           \<and> r K_createdDate = Some (JStr c)
           \<and> (\<forall>t' r'. mapRemoteToCustomer t' R i = Inr r' \<longrightarrow>
                 r' = r(K_createdDate := r' K_createdDate))"
  using assms unfolding mapRemoteToCustomer_def Let_def
  by (cases "date_text (t - int (i mod 365) * 24 * 60 * 60 * 1000)")
     (auto split: sum.splits)

lemma seconds_of_created:
  fixes t :: int
  shows "(t - int (i mod 365) * 24 * 60 * 60 * 1000) div 1000
           = t div 1000 - int (i mod 365) * 86400"
proof -
  have "t - int (i mod 365) * 24 * 60 * 60 * 1000 = t + (- (int (i mod 365) * 86400)) * 1000"
    by simp
  then show ?thesis
    by (simp only: div_mult_self1)
qed

text \<open>
  C4, as the claim states it, fails: the mapper reads the clock, and two calls with the
  same record and index give different rows when the clock has moved on by a second
  (\<^verbatim>\<open>createdDate\<close> is \<^verbatim>\<open>2025-10-26 22:44:16\<close> in the first row and
  \<^verbatim>\<open>2025-10-26 22:44:17\<close> in the second).
\<close>

theorem mapper_reads_clock_counterexample:
  "mapRemoteToCustomer 1762123456789 empty_object 7
     \<noteq> mapRemoteToCustomer 1762123457789 empty_object 7"
proof
  assume "mapRemoteToCustomer 1762123456789 empty_object 7
     = mapRemoteToCustomer 1762123457789 empty_object 7"
  then have "(case mapRemoteToCustomer 1762123456789 empty_object 7 of
                Inl e \<Rightarrow> None | Inr r \<Rightarrow> r K_createdDate)
           = (case mapRemoteToCustomer 1762123457789 empty_object 7 of
                Inl e \<Rightarrow> None | Inr r \<Rightarrow> r K_createdDate)"
    by simp
  then show False
    by code_simp
qed

text \<open>
  C4, amended: two calls of the mapper with the same record and index that both return
  give rows that agree in every field but \<^verbatim>\<open>createdDate\<close>, whatever the clock
  shows; the rows are identical when both calls read the clock within the same second.
\<close>

theorem mapper_fields:
  assumes "mapRemoteToCustomer t1 R i = Inr r1" and "mapRemoteToCustomer t2 R i = Inr r2"
  shows "r2 = r1(K_createdDate := r2 K_createdDate)
         \<and> (t1 div 1000 = t2 div 1000 \<longrightarrow> r2 = r1)"
proof -
  let ?k = "int (i mod 365) * 24 * 60 * 60 * 1000"
  from mapper_split [OF assms(1)] obtain a where a: "date_text (t1 - ?k) = Inr a"
    and ra: "r1 K_createdDate = Some (JStr a)"
    and rest: "\<forall>t' r'. mapRemoteToCustomer t' R i = Inr r' \<longrightarrow>
                 r' = r1(K_createdDate := r' K_createdDate)"
    by blast
  from mapper_split [OF assms(2)] obtain b where b: "date_text (t2 - ?k) = Inr b"
    and rb: "r2 K_createdDate = Some (JStr b)"
    by blast
  from rest assms(2) have first: "r2 = r1(K_createdDate := r2 K_createdDate)"
    by blast
  have second: "r2 = r1" if "t1 div 1000 = t2 div 1000"
  proof -
    from that have "(t1 - ?k) div 1000 = (t2 - ?k) div 1000"
      by (simp only: seconds_of_created)
    then have "a = b"
      using a b by (rule date_text_same_second)
    with ra rb have "r2 K_createdDate = r1 K_createdDate"
      by simp
    with first have "r2 = r1(K_createdDate := r1 K_createdDate)"
      by simp
    then show ?thesis
      by simp
  qed
  from first second show ?thesis
    by blast
qed

theorem mapper_fields_witness:
  "\<exists>r1 r2. mapRemoteToCustomer 1762123456789 empty_object 7 = Inr r1
     \<and> mapRemoteToCustomer 1762123456999 empty_object 7 = Inr r2
     \<and> (1762123456789 :: int) div 1000 = 1762123456999 div 1000
     \<and> r2 = r1 \<and> r1 K_id = Some (JStr ''7'')"
proof -
  obtain r1 where r1: "mapRemoteToCustomer 1762123456789 empty_object 7 = Inr r1"
    using mapRemoteToCustomer_ok [of 1762123456789 empty_object 7]
    by (auto simp add: clock_ok_def)
  obtain r2 where r2: "mapRemoteToCustomer 1762123456999 empty_object 7 = Inr r2"
    using mapRemoteToCustomer_ok [of 1762123456999 empty_object 7]
    by (auto simp add: clock_ok_def)
  have same: "(1762123456789 :: int) div 1000 = 1762123456999 div 1000"
    by simp
  have "(case mapRemoteToCustomer 1762123456789 empty_object 7 of
           Inl e \<Rightarrow> None | Inr r \<Rightarrow> r K_id) = Some (JStr ''7'')"
    by code_simp
  with r1 have id1: "r1 K_id = Some (JStr ''7'')"
    by simp
  from mapper_fields [OF r1 r2] same have "r2 = r1"
    by blast
  with r1 r2 same id1 show ?thesis
    by blast
qed

section \<open>Properties of the text cell\<close>

lemma is_AZ_not_white: "is_AZ c \<Longrightarrow> \<not> is_white c"
  by (auto simp add: is_AZ_def is_white_def)

lemma test_AZ2_iff: "test_AZ2 s \<longleftrightarrow> (\<exists>a b. s = [a, b] \<and> is_AZ a \<and> is_AZ b)"
  by (cases s rule: test_AZ2.cases) simp_all

lemma trim_split:
  "\<exists>pre post. v = pre @ trim v @ post \<and> list_all is_white pre \<and> list_all is_white post"
proof -
  let ?u = "dropWhile is_white v"
  have v: "v = takeWhile is_white v @ ?u"
    by simp
  have "trim v @ rev (takeWhile is_white (rev ?u))
          = rev (takeWhile is_white (rev ?u) @ dropWhile is_white (rev ?u))"
    by (simp only: trim_def rev_append)
  also have "\<dots> = ?u"
    by (simp only: takeWhile_dropWhile_id rev_rev_ident)
  finally have u: "?u = trim v @ rev (takeWhile is_white (rev ?u))"
    by (rule sym)
  have w1: "list_all is_white (takeWhile is_white v)"
    by (simp add: list_all_iff) (meson set_takeWhileD)
  have w2: "list_all is_white (rev (takeWhile is_white (rev ?u)))"
    by (simp add: list_all_iff) (meson set_takeWhileD)
  from v u have "v = takeWhile is_white v @ trim v @ rev (takeWhile is_white (rev ?u))"
    by simp
  with w1 w2 show ?thesis by blast
qed

lemma trim_two:
  assumes "list_all is_white pre" and "list_all is_white post"
    and "\<not> is_white a" and "\<not> is_white b"
  shows "trim (pre @ [a, b] @ post) = [a, b]"
proof -
  from assms(1,3) have "dropWhile is_white (pre @ [a, b] @ post) = [a, b] @ post"
    by (simp add: list_all_iff dropWhile_append3)
  moreover from assms(2,4) have "dropWhile is_white (rev post @ [b, a]) = [b, a]"
    by (simp add: list_all_iff dropWhile_append3)
  ultimately show ?thesis
    by (simp add: trim_def)
qed

lemma validate_state_iff: "validate_state v = two_uppercase_after_trimming v"
proof
  assume "validate_state v"
  then obtain a b where t: "trim v = [a, b]" and az: "is_AZ a" "is_AZ b"
    by (auto simp add: validate_state_def test_AZ2_iff)
  from trim_split [of v] t obtain pre post where "v = pre @ [a, b] @ post"
    and "list_all is_white pre" and "list_all is_white post"
    by auto
  with az show "two_uppercase_after_trimming v"
    unfolding two_uppercase_after_trimming_def by blast
next
  assume "two_uppercase_after_trimming v"
  then obtain pre a b post where v: "v = pre @ [a, b] @ post"
    and w: "list_all is_white pre" "list_all is_white post" and az: "is_AZ a" "is_AZ b"
    unfolding two_uppercase_after_trimming_def by blast
  from w az have "trim v = [a, b]"
    unfolding v by (intro trim_two is_AZ_not_white)
  with az show "validate_state v"
    by (simp add: validate_state_def)
qed

text \<open>
  C8, as the claim states it, fails for a cell whose table gives it no
  \<^verbatim>\<open>updateCell\<close>: \<open>commit\<close> then leaves the editing mode at once, without
  validating and without a message. Here the cell of the name column holds the empty
  string, which its validator rejects.
\<close>

theorem commit_without_callback_counterexample:
  "columns K_name ''row-3'' None
     = Some \<lparr> rowId = ''row-3'', columnKey = K_name, meta_updateCell = None,
              placeholder = Some ''Required'', validate = Some validate_required,
              errorMessage = Some ''Name is required'' \<rparr>
   \<and> \<not> validate_required []
   \<and> commit \<lparr> rowId = ''row-3'', columnKey = K_name, meta_updateCell = None,
              placeholder = Some ''Required'', validate = Some validate_required,
              errorMessage = Some ''Name is required'' \<rparr>
        \<lparr>value' = [], editing = True, error = []\<rparr> (initial Map.empty)
      = (\<lparr>value' = [], editing = False, error = []\<rparr>, initial Map.empty)"
  by (simp add: columns_def commit_def validate_required_def trim_def)

text \<open>
  C8, amended: for a text cell that has the callback, a commit whose value fails the
  validator of the cell leaves the mode of the cell as it is (so it stays in editing),
  sets a message that is not empty (the configured one, or \<^verbatim>\<open>Invalid value\<close>), keeps
  the value in the input, and leaves the state of the editor, overlay and rows,
  untouched.
\<close>

theorem commit_rejected:
  assumes "meta_updateCell p = Some upd" and "validate p = Some f" and "\<not> f (value' c)"
  shows "commit p c s = (c\<lparr>error := js_or (errorMessage p) ''Invalid value''\<rparr>, s)
         \<and> editing (fst (commit p c s)) = editing c
         \<and> value' (fst (commit p c s)) = value' c
         \<and> error (fst (commit p c s)) \<noteq> []
         \<and> snd (commit p c s) = s"
  using assms by (simp add: commit_def js_or_def split: option.splits)

theorem commit_rejected_witness:
  "\<not> validate_required ''  ''
   \<and> commit \<lparr> rowId = ''row-3'', columnKey = K_name, meta_updateCell = Some updateCell,
              placeholder = Some ''Required'', validate = Some validate_required,
              errorMessage = Some ''Name is required'' \<rparr>
        \<lparr>value' = ''  '', editing = True, error = []\<rparr> (initial Map.empty)
      = (\<lparr>value' = ''  '', editing = True, error = ''Name is required''\<rparr>, initial Map.empty)"
proof -
  have v: "\<not> validate_required ''  ''" by code_simp
  with commit_rejected [of "\<lparr> rowId = ''row-3'', columnKey = K_name, meta_updateCell = Some updateCell,
              placeholder = Some ''Required'', validate = Some validate_required,
              errorMessage = Some ''Name is required'' \<rparr>" updateCell validate_required
              "\<lparr>value' = ''  '', editing = True, error = []\<rparr>" "initial Map.empty"]
  show ?thesis by (simp add: js_or_def)
qed

text \<open>
  C9. The cell of the state column, with the callback of the editor: a commit of
  \<^verbatim>\<open>ca\<close> is rejected with the message of the column and changes nothing else; a
  commit of \<^verbatim>\<open>CA\<close> leaves the editing mode and calls \<open>updateCell\<close>, after which
  the overlay entry of the row is the former entry with the state set to \<^verbatim>\<open>CA\<close>.
  The validator accepts exactly the values that are two uppercase letters once the white
  space at both ends is removed.
\<close>

theorem state_cell_commit:
  "(\<exists>p. columns K_state rid (Some updateCell) = Some p
      \<and> commit p (c\<lparr>value' := ''ca''\<rparr>) s
          = (c\<lparr>value' := ''ca'', error := ''Use 2 uppercase letters''\<rparr>, s)
      \<and> commit p (c\<lparr>value' := ''CA''\<rparr>) s
          = (c\<lparr>value' := ''CA'', error := [], editing := False\<rparr>,
             updateCell rid K_state ''CA'' s))
   \<and> editCache (updateCell rid K_state ''CA'' s) rid
        = Some ((case editCache s rid of Some e \<Rightarrow> e | None \<Rightarrow> Map.empty)
                  (K_state \<mapsto> JStr ''CA''))
   \<and> \<not> validate_state ''ca'' \<and> validate_state ''CA''
   \<and> (\<forall>v. validate_state v = two_uppercase_after_trimming v)"
proof -
  have no: "\<not> validate_state ''ca''"
    by code_simp
  have yes: "validate_state ''CA''"
    by code_simp
  have "editCache (updateCell rid K_state ''CA'' s) rid
        = Some ((case editCache s rid of Some e \<Rightarrow> e | None \<Rightarrow> Map.empty)
                  (K_state \<mapsto> JStr ''CA''))"
    by (simp add: updateCell_def)
  with no yes validate_state_iff show ?thesis
    by (simp add: columns_def commit_def js_or_def)
qed

end
